theory Spec2Isabelle
  imports Main
begin

section \<open>JavaScript values handled by the bridge\<close>

text \<open>
  The server of \<^verbatim>\<open>src/index.ts\<close> receives a tool name and an argument bag that was parsed
  from JSON, and never validates the bag against the advertised schema (the casts
  \<^verbatim>\<open>args?.path as string\<close> do nothing at run time). An argument is therefore any JSON value,
  or \<^verbatim>\<open>undefined\<close> when the key (or the whole bag) is missing.

  Strings are modelled as the list of their UTF-8 bytes; numbers as integers, printed in
  decimal as \<^verbatim>\<open>Number.prototype.toString\<close> prints an integer it represents exactly. Strings
  that are not well-formed Unicode (a lone surrogate), numbers with a fractional part and
  integers too large for a double are outside this model.

  An object is the list of its properties in the order JavaScript enumerates them, which
  is the order \<^verbatim>\<open>JSON.stringify\<close> prints them in.
\<close>

datatype json =
    JNull
  | JBool bool
  | JNum int
  | JStr string
  | JArr "json list"
  | JObj "(string \<times> json) list"

text \<open>A JavaScript value read from the argument bag: \<open>None\<close> is \<^verbatim>\<open>undefined\<close>.\<close>

type_synonym jsval = "json option"

text \<open>\<^verbatim>\<open>request.params.arguments\<close>: an object, or \<^verbatim>\<open>undefined\<close>.\<close>

type_synonym arguments = "(string \<rightharpoonup> json) option"

text \<open>\<^verbatim>\<open>args?.key\<close>\<close>

definition arg :: "arguments \<Rightarrow> string \<Rightarrow> jsval" where
  "arg args k = (case args of None \<Rightarrow> None | Some m \<Rightarrow> m k)"

text \<open>A parameter with a default value, \<^verbatim>\<open>(x: T = d)\<close>: the default replaces \<^verbatim>\<open>undefined\<close> only.\<close>

definition default_param :: "jsval \<Rightarrow> json \<Rightarrow> json" where
  "default_param v d = (case v of None \<Rightarrow> d | Some x \<Rightarrow> x)"

text \<open>The truth value of \<^verbatim>\<open>if (x)\<close>.\<close>

fun truthy :: "jsval \<Rightarrow> bool" where
  "truthy None = False"
| "truthy (Some JNull) = False"
| "truthy (Some (JBool b)) = b"
| "truthy (Some (JNum n)) = (n \<noteq> 0)"
| "truthy (Some (JStr s)) = (s \<noteq> [])"
| "truthy (Some (JArr xs)) = True"
| "truthy (Some (JObj kvs)) = True"

subsection \<open>Errors\<close>

text \<open>
  The run-time faults the built-in conversions can raise on an ill-typed argument. Each is
  a \<^verbatim>\<open>TypeError\<close>, whose message is chosen by the JavaScript engine.
\<close>

datatype fault =
    PropertyOfNull
  | NotAFunction
  | NotPrimitive

datatype js_error =
    Error string
  | TypeError fault
  | SyntaxError string
  | FetchError string

subsection \<open>Conversions to strings\<close>

definition digit_char :: "nat \<Rightarrow> char" where
  "digit_char d = ''0123456789'' ! d"

function nat_toString :: "nat \<Rightarrow> string" where
  "nat_toString n =
     (if n < 10 then [digit_char n] else nat_toString (n div 10) @ [digit_char (n mod 10)])"
  by pat_completeness auto
termination
  by (relation "measure id") auto

declare nat_toString.simps [simp del]

definition number_toString :: "int \<Rightarrow> string" where
  "number_toString n =
     (if n < 0 then CHR ''-'' # nat_toString (nat (- n)) else nat_toString (nat n))"

text \<open>\<^verbatim>\<open>Array.prototype.join\<close> on strings already computed.\<close>

fun join_with :: "string \<Rightarrow> string list \<Rightarrow> string" where
  "join_with sep [] = []"
| "join_with sep [s] = s"
| "join_with sep (s # t # ts) = s @ sep @ join_with sep (t # ts)"

definition and_then :: "'e + 'a \<Rightarrow> ('a \<Rightarrow> 'e + 'b) \<Rightarrow> 'e + 'b" where
  "and_then m f = (case m of Inl e \<Rightarrow> Inl e | Inr x \<Rightarrow> f x)"

text \<open>
  The abstract operation \<^verbatim>\<open>ToString\<close>, as a template literal, \<^verbatim>\<open>encodeURIComponent\<close> and
  the \<^verbatim>\<open>URLSearchParams\<close> constructor apply it. An array is joined with commas, its
  \<^verbatim>\<open>null\<close> elements printed as the empty string. An object prints as
  \<^verbatim>\<open>[object Object]\<close>, unless it has a key \<^verbatim>\<open>toString\<close> of its own: a value parsed from
  JSON is never callable, and \<^verbatim>\<open>Object.prototype.valueOf\<close> returns no primitive, so the
  conversion raises.
\<close>

fun ToString :: "json \<Rightarrow> fault + string"
  and element_strings :: "json list \<Rightarrow> fault + string list"
where
  "ToString JNull = Inr ''null''"
| "ToString (JBool b) = Inr (if b then ''true'' else ''false'')"
| "ToString (JNum n) = Inr (number_toString n)"
| "ToString (JStr s) = Inr s"
| "ToString (JArr xs) = and_then (element_strings xs) (\<lambda>ss. Inr (join_with '','' ss))"
| "ToString (JObj kvs) =
     (if ''toString'' \<in> fst ` set kvs then Inl NotPrimitive else Inr ''[object Object]'')"
| "element_strings [] = Inr []"
| "element_strings (x # xs) =
     and_then (if x = JNull then Inr [] else ToString x) (\<lambda>s.
     and_then (element_strings xs) (\<lambda>ss. Inr (s # ss)))"

text \<open>\<^verbatim>\<open>ToString\<close> of a value that may be \<^verbatim>\<open>undefined\<close>.\<close>

definition ToString_val :: "jsval \<Rightarrow> fault + string" where
  "ToString_val v = (case v of None \<Rightarrow> Inr ''undefined'' | Some x \<Rightarrow> ToString x)"

text \<open>The method call \<^verbatim>\<open>x.toString()\<close>.\<close>

fun toString_method :: "json \<Rightarrow> fault + string" where
  "toString_method JNull = Inl PropertyOfNull"
| "toString_method (JObj kvs) =
     (if ''toString'' \<in> fst ` set kvs then Inl NotAFunction else Inr ''[object Object]'')"
| "toString_method x = ToString x"

text \<open>The method call \<^verbatim>\<open>x.join(",")\<close>: only an array has the method.\<close>

fun join_method :: "json \<Rightarrow> fault + string" where
  "join_method (JArr xs) = and_then (element_strings xs) (\<lambda>ss. Inr (join_with '','' ss))"
| "join_method JNull = Inl PropertyOfNull"
| "join_method x = Inl NotAFunction"

subsection \<open>Percent-encoding\<close>

definition hex_upper :: "nat \<Rightarrow> char" where
  "hex_upper d = ''0123456789ABCDEF'' ! d"

definition percent_byte :: "char \<Rightarrow> string" where
  "percent_byte c = [CHR ''%'', hex_upper (of_char c div 16), hex_upper (of_char c mod 16)]"

text \<open>The characters \<^verbatim>\<open>encodeURIComponent\<close> leaves alone.\<close>

definition uri_unreserved :: "char \<Rightarrow> bool" where
  "uri_unreserved c \<longleftrightarrow>
     c \<in> set (''ABCDEFGHIJKLMNOPQRSTUVWXYZabcdefghijklmnopqrstuvwxyz0123456789-_.!~*()''
              @ [CHR 0x27])"

definition encodeURIComponent_string :: "string \<Rightarrow> string" where
  "encodeURIComponent_string s =
     concat (map (\<lambda>c. if uri_unreserved c then [c] else percent_byte c) s)"

definition encodeURIComponent :: "jsval \<Rightarrow> fault + string" where
  "encodeURIComponent v = and_then (ToString_val v) (\<lambda>s. Inr (encodeURIComponent_string s))"

text \<open>
  \<^verbatim>\<open>URLSearchParams\<close>: a list of name-value pairs, printed by the
  \<^verbatim>\<open>application/x-www-form-urlencoded\<close> serializer (a space becomes \<^verbatim>\<open>+\<close>, every byte
  but letters, digits and \<^verbatim>\<open>*-._\<close> is percent-encoded).
\<close>

definition form_unreserved :: "char \<Rightarrow> bool" where
  "form_unreserved c \<longleftrightarrow>
     c \<in> set ''ABCDEFGHIJKLMNOPQRSTUVWXYZabcdefghijklmnopqrstuvwxyz0123456789*-._''"

definition form_encode :: "string \<Rightarrow> string" where
  "form_encode s =
     concat (map (\<lambda>c. if c = CHR '' '' then ''+''
                       else if form_unreserved c then [c] else percent_byte c) s)"

definition URLSearchParams_toString :: "(string \<times> string) list \<Rightarrow> string" where
  "URLSearchParams_toString ps =
     join_with ''&'' (map (\<lambda>(k, v). form_encode k @ ''='' @ form_encode v) ps)"

section \<open>JSON text\<close>

text \<open>
  \<^verbatim>\<open>JSON.stringify(value, null, space)\<close> as ECMAScript defines it (SerializeJSONProperty with
  its \<^verbatim>\<open>gap\<close> and \<^verbatim>\<open>indent\<close>): the bridge prints request bodies with no gap and tool
  results with a gap of two spaces.
\<close>

definition hex_lower :: "nat \<Rightarrow> char" where
  "hex_lower d = ''0123456789abcdef'' ! d"

definition dquote :: char where
  "dquote = CHR 0x22"

definition backslash :: char where
  "backslash = CHR 0x5C"

definition newline :: char where
  "newline = CHR 0x0A"

definition json_escape :: "char \<Rightarrow> string" where
  "json_escape c =
     (if c = CHR 0x08 then [backslash, CHR ''b'']
      else if c = CHR 0x09 then [backslash, CHR ''t'']
      else if c = CHR 0x0A then [backslash, CHR ''n'']
      else if c = CHR 0x0C then [backslash, CHR ''f'']
      else if c = CHR 0x0D then [backslash, CHR ''r'']
      else if c = dquote then [backslash, dquote]
      else if c = backslash then [backslash, backslash]
      else if of_char c < (32 :: nat) then
        [backslash, CHR ''u'', CHR ''0'', CHR ''0'',
         hex_lower (of_char c div 16), hex_lower (of_char c mod 16)]
      else [c])"

definition QuoteJSONString :: "string \<Rightarrow> string" where
  "QuoteJSONString s = dquote # concat (map json_escape s) @ [dquote]"

text \<open>
  The common end of SerializeJSONArray and SerializeJSONObject: the parts between the
  brackets \<open>l\<close> and \<open>r\<close>, on one line when there is no gap, else one part a line,
  indented by \<open>stepback @ gap\<close>.
\<close>

definition bracketed :: "string \<Rightarrow> string \<Rightarrow> string \<Rightarrow> string \<Rightarrow> string list \<Rightarrow> string" where
  "bracketed l r gap stepback parts =
     (if parts = [] then l @ r
      else if gap = [] then l @ join_with '','' parts @ r
      else l @ [newline] @ (stepback @ gap)
             @ join_with ('','' @ [newline] @ (stepback @ gap)) parts
             @ [newline] @ stepback @ r)"

fun SerializeJSONProperty :: "string \<Rightarrow> string \<Rightarrow> json \<Rightarrow> string"
  and serialize_elements :: "string \<Rightarrow> string \<Rightarrow> json list \<Rightarrow> string list"
  and serialize_members :: "string \<Rightarrow> string \<Rightarrow> (string \<times> json) list \<Rightarrow> string list"
where
  "SerializeJSONProperty gap indent JNull = ''null''"
| "SerializeJSONProperty gap indent (JBool b) = (if b then ''true'' else ''false'')"
| "SerializeJSONProperty gap indent (JNum n) = number_toString n"
| "SerializeJSONProperty gap indent (JStr s) = QuoteJSONString s"
| "SerializeJSONProperty gap indent (JArr xs) =
     bracketed ''['' '']'' gap indent (serialize_elements gap (indent @ gap) xs)"
| "SerializeJSONProperty gap indent (JObj kvs) =
     bracketed ''{'' ''}'' gap indent (serialize_members gap (indent @ gap) kvs)"
| "serialize_elements gap indent [] = []"
| "serialize_elements gap indent (x # xs) =
     SerializeJSONProperty gap indent x # serialize_elements gap indent xs"
| "serialize_members gap indent [] = []"
| "serialize_members gap indent ((k, v) # kvs) =
     (QuoteJSONString k @ '':'' @ (if gap = [] then [] else '' '')
        @ SerializeJSONProperty gap indent v)
     # serialize_members gap indent kvs"

definition JSON_stringify :: "json \<Rightarrow> nat \<Rightarrow> string" where
  "JSON_stringify v space = SerializeJSONProperty (replicate (min 10 space) CHR '' '') [] v"

text \<open>
  An object literal whose property values may be \<^verbatim>\<open>undefined\<close>: \<^verbatim>\<open>JSON.stringify\<close> leaves
  such a property out.
\<close>

fun defined_properties :: "(string \<times> jsval) list \<Rightarrow> (string \<times> json) list" where
  "defined_properties [] = []"
| "defined_properties ((k, None) # ps) = defined_properties ps"
| "defined_properties ((k, Some v) # ps) = (k, v) # defined_properties ps"

definition JSON_stringify_object :: "(string \<times> jsval) list \<Rightarrow> string" where
  "JSON_stringify_object props = JSON_stringify (JObj (defined_properties props)) 0"

subsection \<open>Parsing\<close>

















section \<open>The HTTP client\<close>

record config =
  cfg_baseUrl :: string
  cfg_apiKey :: "string option"

text \<open>What \<^verbatim>\<open>fetch\<close> sends: the method is \<^verbatim>\<open>GET\<close> when the caller names none.\<close>

record http_request =
  req_url :: string
  req_method :: string
  req_headers :: "(string \<times> string) list"
  req_body :: "string option"

text \<open>
  What comes back: \<open>resp_json\<close> is the outcome of \<^verbatim>\<open>response.json()\<close>, the parsed value
  or the message of the error it rejects with.
\<close>

record response =
  resp_status :: nat
  resp_statusText :: string
  resp_json :: "string + json"

datatype fetch_outcome =
    Rejected string
  | Responded response

text \<open>
  The environment of one call: the network behind \<^verbatim>\<open>fetch\<close>, and the messages the engine
  gives its own errors.
\<close>

record runtime =
  fetch :: "http_request \<Rightarrow> fetch_outcome"
  engine_message :: "fault \<Rightarrow> string"

definition error_message :: "runtime \<Rightarrow> js_error \<Rightarrow> string" where
  "error_message rt e =
     (case e of
        Error m \<Rightarrow> m
      | TypeError f \<Rightarrow> engine_message rt f
      | SyntaxError m \<Rightarrow> m
      | FetchError m \<Rightarrow> m)"

text \<open>\<^verbatim>\<open>response.ok\<close>\<close>

definition ok :: "response \<Rightarrow> bool" where
  "ok r \<longleftrightarrow> 200 \<le> resp_status r \<and> resp_status r \<le> 299"

record ObsidianApiClient =
  baseUrl :: string
  headers :: "(string \<times> string) list"

text \<open>The constructor.\<close>

definition new_ObsidianApiClient :: "config \<Rightarrow> ObsidianApiClient" where
  "new_ObsidianApiClient cfg =
     \<lparr> baseUrl = cfg_baseUrl cfg @ ''/api'',
       headers =
         [(''Content-Type'', ''application/json''), (''Accept'', ''application/json'')]
         @ (case cfg_apiKey cfg of
              None \<Rightarrow> []
            | Some k \<Rightarrow> if k \<noteq> [] then [(''Authorization'', ''Bearer '' @ k)] else []) \<rparr>"

text \<open>
  The \<^verbatim>\<open>RequestInit\<close> a method of the client passes to \<^verbatim>\<open>request\<close>. No method passes
  headers of its own, so the merged headers are the client's.
\<close>

record request_init =
  init_method :: "string option"
  init_body :: "string option"

definition no_options :: request_init where
  "no_options = \<lparr> init_method = None, init_body = None \<rparr>"

text \<open>
  The state threaded through a call is the list of HTTP requests sent so far. A method
  returns the value it resolves to, or the error it rejects with, and the new list.
\<close>

type_synonym wire = "http_request list"

type_synonym 'a outcome = "(js_error + 'a) \<times> wire"

text \<open>The request \<^verbatim>\<open>request\<close> hands to \<^verbatim>\<open>fetch\<close>.\<close>

definition outgoing :: "ObsidianApiClient \<Rightarrow> string \<Rightarrow> request_init \<Rightarrow> http_request" where
  "outgoing c path options =
     \<lparr> req_url = baseUrl c @ path,
       req_method = (case init_method options of None \<Rightarrow> ''GET'' | Some m \<Rightarrow> m),
       req_headers = headers c,
       req_body = init_body options \<rparr>"

definition request :: "runtime \<Rightarrow> ObsidianApiClient \<Rightarrow> string \<Rightarrow> request_init \<Rightarrow> wire \<Rightarrow> json outcome" where
  "request rt c path options w =
     (case fetch rt (outgoing c path options) of
        Rejected msg \<Rightarrow> (Inl (FetchError msg), w @ [outgoing c path options])
      | Responded resp \<Rightarrow>
          if \<not> ok resp then
            (Inl (Error (''API request failed: '' @ nat_toString (resp_status resp)
                           @ '' '' @ resp_statusText resp)),
             w @ [outgoing c path options])
          else
            (case resp_json resp of
               Inl msg \<Rightarrow> (Inl (SyntaxError msg), w @ [outgoing c path options])
             | Inr v \<Rightarrow> (Inr v, w @ [outgoing c path options])))"

text \<open>
  A method whose arguments must first be converted to strings: a conversion that raises
  rejects the call before anything is sent.
\<close>

definition converted :: "fault + 'a \<Rightarrow> ('a \<Rightarrow> wire \<Rightarrow> json outcome) \<Rightarrow> wire \<Rightarrow> json outcome" where
  "converted m k w = (case m of Inl f \<Rightarrow> (Inl (TypeError f), w) | Inr x \<Rightarrow> k x w)"

subsection \<open>The methods of the client\<close>

definition listDirectory :: "runtime \<Rightarrow> ObsidianApiClient \<Rightarrow> jsval \<Rightarrow> jsval \<Rightarrow> jsval \<Rightarrow> jsval \<Rightarrow> wire \<Rightarrow> json outcome" where
  "listDirectory rt c path recursive limit offset =
     converted
       (and_then (toString_method (default_param recursive (JBool False))) (\<lambda>r.
        and_then (toString_method (default_param limit (JNum 50))) (\<lambda>l.
        and_then (toString_method (default_param offset (JNum 0))) (\<lambda>off.
        and_then (ToString (default_param path (JStr ''.''))) (\<lambda>p.
        Inr [(''path'', p), (''recursive'', r), (''limit'', l), (''offset'', off)])))))
       (\<lambda>params. request rt c (''/vault/directory?'' @ URLSearchParams_toString params) no_options)"

definition readFile :: "runtime \<Rightarrow> ObsidianApiClient \<Rightarrow> jsval \<Rightarrow> wire \<Rightarrow> json outcome" where
  "readFile rt c path =
     converted (encodeURIComponent path) (\<lambda>p. request rt c (''/files/'' @ p) no_options)"

definition writeFile :: "runtime \<Rightarrow> ObsidianApiClient \<Rightarrow> jsval \<Rightarrow> jsval \<Rightarrow> jsval \<Rightarrow> wire \<Rightarrow> json outcome" where
  "writeFile rt c path content mode =
     request rt c ''/files/write''
       \<lparr> init_method = Some ''POST'',
         init_body = Some (JSON_stringify_object
           [(''path'', path), (''content'', content),
            (''mode'', Some (default_param mode (JStr ''overwrite'')))]) \<rparr>"

definition deleteItem :: "runtime \<Rightarrow> ObsidianApiClient \<Rightarrow> jsval \<Rightarrow> wire \<Rightarrow> json outcome" where
  "deleteItem rt c path =
     converted (encodeURIComponent path) (\<lambda>p.
       request rt c (''/files/'' @ p) \<lparr> init_method = Some ''DELETE'', init_body = None \<rparr>)"

definition createOrUpdateNote :: "runtime \<Rightarrow> ObsidianApiClient \<Rightarrow> jsval \<Rightarrow> jsval \<Rightarrow> jsval \<Rightarrow> wire \<Rightarrow> json outcome" where
  "createOrUpdateNote rt c path content frontmatter =
     request rt c ''/notes/upsert''
       \<lparr> init_method = Some ''POST'',
         init_body = Some (JSON_stringify_object
           [(''path'', path), (''content'', content),
            (''front_matter'', Some (default_param frontmatter (JObj [])))]) \<rparr>"

definition getDailyNote :: "runtime \<Rightarrow> ObsidianApiClient \<Rightarrow> jsval \<Rightarrow> wire \<Rightarrow> json outcome" where
  "getDailyNote rt c date =
     converted
       (and_then (ToString (default_param date (JStr ''today''))) (\<lambda>d. Inr [(''date'', d)]))
       (\<lambda>params. request rt c (''/vault/notes/daily?'' @ URLSearchParams_toString params) no_options)"

definition getRecentNotes :: "runtime \<Rightarrow> ObsidianApiClient \<Rightarrow> jsval \<Rightarrow> wire \<Rightarrow> json outcome" where
  "getRecentNotes rt c limit =
     converted
       (and_then (toString_method (default_param limit (JNum 5))) (\<lambda>l. Inr [(''limit'', l)]))
       (\<lambda>params. request rt c (''/vault/notes/recent?'' @ URLSearchParams_toString params) no_options)"

definition searchVault :: "runtime \<Rightarrow> ObsidianApiClient \<Rightarrow> jsval \<Rightarrow> jsval \<Rightarrow> jsval \<Rightarrow> wire \<Rightarrow> json outcome" where
  "searchVault rt c query scope pathFilter =
     converted
       (and_then
          (join_method (default_param scope (JArr [JStr ''content'', JStr ''filename'', JStr ''tags''])))
          (\<lambda>sc.
        and_then (ToString_val query) (\<lambda>q.
        if truthy pathFilter then
          and_then (ToString_val pathFilter) (\<lambda>pf.
          Inr [(''query'', q), (''scope'', sc), (''path_filter'', pf)])
        else Inr [(''query'', q), (''scope'', sc)])))
       (\<lambda>params. request rt c (''/vault/search?'' @ URLSearchParams_toString params) no_options)"

definition findRelatedNotes :: "runtime \<Rightarrow> ObsidianApiClient \<Rightarrow> jsval \<Rightarrow> jsval \<Rightarrow> wire \<Rightarrow> json outcome" where
  "findRelatedNotes rt c path on =
     converted
       (and_then (join_method (default_param on (JArr [JStr ''tags'', JStr ''links'']))) (\<lambda>joined.
        and_then (encodeURIComponent path) (\<lambda>p.
        Inr (p, [(''on'', joined)]))))
       (\<lambda>(p, params).
          request rt c (''/vault/notes/related/'' @ p @ ''?'' @ URLSearchParams_toString params)
            no_options)"

text \<open>The methods kept for backward compatibility.\<close>

definition listFiles :: "runtime \<Rightarrow> ObsidianApiClient \<Rightarrow> wire \<Rightarrow> json outcome" where
  "listFiles rt c = request rt c ''/files'' no_options"


definition createFile :: "runtime \<Rightarrow> ObsidianApiClient \<Rightarrow> jsval \<Rightarrow> jsval \<Rightarrow> jsval \<Rightarrow> wire \<Rightarrow> json outcome" where
  "createFile rt c path content type =
     request rt c ''/files''
       \<lparr> init_method = Some ''POST'',
         init_body = Some (JSON_stringify_object
           [(''path'', path), (''content'', content),
            (''type'', Some (default_param type (JStr ''file'')))]) \<rparr>"

definition updateFile :: "runtime \<Rightarrow> ObsidianApiClient \<Rightarrow> jsval \<Rightarrow> jsval \<Rightarrow> wire \<Rightarrow> json outcome" where
  "updateFile rt c path content =
     converted (encodeURIComponent path) (\<lambda>p.
       request rt c (''/files/'' @ p)
         \<lparr> init_method = Some ''PUT'',
           init_body = Some (JSON_stringify_object [(''content'', content)]) \<rparr>)"


definition listNotes :: "runtime \<Rightarrow> ObsidianApiClient \<Rightarrow> wire \<Rightarrow> json outcome" where
  "listNotes rt c = request rt c ''/notes'' no_options"

definition getNote :: "runtime \<Rightarrow> ObsidianApiClient \<Rightarrow> jsval \<Rightarrow> wire \<Rightarrow> json outcome" where
  "getNote rt c path =
     converted (encodeURIComponent path) (\<lambda>p. request rt c (''/notes/'' @ p) no_options)"

definition createNote :: "runtime \<Rightarrow> ObsidianApiClient \<Rightarrow> jsval \<Rightarrow> jsval \<Rightarrow> jsval \<Rightarrow> wire \<Rightarrow> json outcome" where
  "createNote rt c path content frontmatter =
     request rt c ''/notes''
       \<lparr> init_method = Some ''POST'',
         init_body = Some (JSON_stringify_object
           ([(''path'', path), (''content'', content)]
            @ (if truthy frontmatter then [(''frontmatter'', frontmatter)] else []))) \<rparr>"

definition updateNote :: "runtime \<Rightarrow> ObsidianApiClient \<Rightarrow> jsval \<Rightarrow> jsval \<Rightarrow> jsval \<Rightarrow> wire \<Rightarrow> json outcome" where
  "updateNote rt c path content frontmatter =
     converted (encodeURIComponent path) (\<lambda>p.
       request rt c (''/notes/'' @ p)
         \<lparr> init_method = Some ''PATCH'',
           init_body = Some (JSON_stringify_object
             ((if content \<noteq> None then [(''content'', content)] else [])
              @ (if frontmatter \<noteq> None then [(''frontmatter'', frontmatter)] else []))) \<rparr>)"


definition searchNotes :: "runtime \<Rightarrow> ObsidianApiClient \<Rightarrow> jsval \<Rightarrow> wire \<Rightarrow> json outcome" where
  "searchNotes rt c query =
     converted (encodeURIComponent query) (\<lambda>q. request rt c (''/notes?search='' @ q) no_options)"

definition getMetadataKeys :: "runtime \<Rightarrow> ObsidianApiClient \<Rightarrow> wire \<Rightarrow> json outcome" where
  "getMetadataKeys rt c = request rt c ''/metadata/keys'' no_options"

definition getMetadataValues :: "runtime \<Rightarrow> ObsidianApiClient \<Rightarrow> jsval \<Rightarrow> wire \<Rightarrow> json outcome" where
  "getMetadataValues rt c key =
     converted (encodeURIComponent key) (\<lambda>k. request rt c (''/metadata/values/'' @ k) no_options)"

section \<open>The MCP server\<close>

subsection \<open>The catalog of tools\<close>

text \<open>
  The answer of the list-tools handler, in its order. Of each tool the name, the
  properties of its input schema with their declared type and default, and the required
  properties are kept; the descriptions and the \<^verbatim>\<open>enum\<close> and \<^verbatim>\<open>items\<close> annotations, which
  no code reads, are left out.
\<close>

record property =
  prop_name :: string
  prop_type :: string
  prop_default :: "json option"

record tool_definition =
  tool_name :: string
  tool_properties :: "property list"
  tool_required :: "string list"

definition schema_prop :: "string \<Rightarrow> string \<Rightarrow> json option \<Rightarrow> property" where
  "schema_prop n t d = \<lparr> prop_name = n, prop_type = t, prop_default = d \<rparr>"

definition tool_def :: "string \<Rightarrow> property list \<Rightarrow> string list \<Rightarrow> tool_definition" where
  "tool_def n ps r = \<lparr> tool_name = n, tool_properties = ps, tool_required = r \<rparr>"

definition tools :: "tool_definition list" where
  "tools =
    [tool_def ''list_directory''
       [schema_prop ''path'' ''string'' (Some (JStr ''.'')),
        schema_prop ''recursive'' ''boolean'' (Some (JBool False)),
        schema_prop ''limit'' ''number'' (Some (JNum 50)),
        schema_prop ''offset'' ''number'' (Some (JNum 0))]
       [],
     tool_def ''read_file'' [schema_prop ''path'' ''string'' None] [''path''],
     tool_def ''write_file''
       [schema_prop ''path'' ''string'' None,
        schema_prop ''content'' ''string'' None,
        schema_prop ''mode'' ''string'' (Some (JStr ''overwrite''))]
       [''path'', ''content''],
     tool_def ''delete_item'' [schema_prop ''path'' ''string'' None] [''path''],
     tool_def ''create_or_update_note''
       [schema_prop ''path'' ''string'' None,
        schema_prop ''content'' ''string'' None,
        schema_prop ''frontmatter'' ''object'' (Some (JObj []))]
       [''path'', ''content''],
     tool_def ''get_daily_note'' [schema_prop ''date'' ''string'' (Some (JStr ''today''))] [],
     tool_def ''get_recent_notes'' [schema_prop ''limit'' ''number'' (Some (JNum 5))] [],
     tool_def ''search_vault''
       [schema_prop ''query'' ''string'' None,
        schema_prop ''scope'' ''array''
          (Some (JArr [JStr ''content'', JStr ''filename'', JStr ''tags''])),
        schema_prop ''path_filter'' ''string'' None]
       [''query''],
     tool_def ''find_related_notes''
       [schema_prop ''path'' ''string'' None,
        schema_prop ''on'' ''array'' (Some (JArr [JStr ''tags'', JStr ''links'']))]
       [''path''],
     tool_def ''get_note'' [schema_prop ''path'' ''string'' None] [''path''],
     tool_def ''list_notes'' [schema_prop ''search'' ''string'' None] [],
     tool_def ''get_metadata_keys'' [] [],
     tool_def ''get_metadata_values'' [schema_prop ''key'' ''string'' None] [''key'']]"

subsection \<open>The call-tool handler\<close>

text \<open>
  The \<^verbatim>\<open>switch\<close> on the tool name, as the list of its case labels in source order with
  the body of each; every body ends in \<^verbatim>\<open>break\<close>, and the first label equal to the name
  is the one taken.
\<close>

type_synonym case_body = "runtime \<Rightarrow> ObsidianApiClient \<Rightarrow> arguments \<Rightarrow> wire \<Rightarrow> json outcome"

definition switch_cases :: "(string \<times> case_body) list" where
  "switch_cases =
    [(''list_directory'', \<lambda>rt c args.
        listDirectory rt c (arg args ''path'') (arg args ''recursive'')
          (arg args ''limit'') (arg args ''offset'')),
     (''read_file'', \<lambda>rt c args. readFile rt c (arg args ''path'')),
     (''write_file'', \<lambda>rt c args.
        writeFile rt c (arg args ''path'') (arg args ''content'') (arg args ''mode'')),
     (''delete_item'', \<lambda>rt c args. deleteItem rt c (arg args ''path'')),
     (''create_or_update_note'', \<lambda>rt c args.
        createOrUpdateNote rt c (arg args ''path'') (arg args ''content'')
          (arg args ''frontmatter'')),
     (''get_daily_note'', \<lambda>rt c args. getDailyNote rt c (arg args ''date'')),
     (''get_recent_notes'', \<lambda>rt c args. getRecentNotes rt c (arg args ''limit'')),
     (''search_vault'', \<lambda>rt c args.
        searchVault rt c (arg args ''query'') (arg args ''scope'') (arg args ''path_filter'')),
     (''find_related_notes'', \<lambda>rt c args.
        findRelatedNotes rt c (arg args ''path'') (arg args ''on'')),
     (''list_notes'', \<lambda>rt c args.
        if truthy (arg args ''search'') then
          searchVault rt c (arg args ''search'')
            (Some (JArr [JStr ''content'', JStr ''filename'', JStr ''tags''])) None
        else listNotes rt c),
     (''get_note'', \<lambda>rt c args. getNote rt c (arg args ''path'')),
     (''get_metadata_keys'', \<lambda>rt c args. getMetadataKeys rt c),
     (''get_metadata_values'', \<lambda>rt c args. getMetadataValues rt c (arg args ''key''))]"

text \<open>The \<^verbatim>\<open>switch\<close> statement with its \<^verbatim>\<open>default\<close> case.\<close>

definition dispatch :: "runtime \<Rightarrow> ObsidianApiClient \<Rightarrow> string \<Rightarrow> arguments \<Rightarrow> wire \<Rightarrow> json outcome" where
  "dispatch rt c name args w =
     (case map_of switch_cases name of
        Some body \<Rightarrow> body rt c args w
      | None \<Rightarrow> (Inl (Error (''Unknown tool: '' @ name)), w))"

text \<open>The result of a call: \<open>isError\<close> is \<open>None\<close> when the key is absent.\<close>

record content_block =
  block_type :: string
  block_text :: string

record envelope =
  content :: "content_block list"
  isError :: "bool option"

text \<open>
  The handler: the \<^verbatim>\<open>try\<close> block is the dispatch and the success envelope, the
  \<^verbatim>\<open>catch\<close> block turns whatever was thrown into an error envelope.
\<close>

definition callTool :: "runtime \<Rightarrow> ObsidianApiClient \<Rightarrow> string \<Rightarrow> arguments \<Rightarrow> wire \<Rightarrow> envelope \<times> wire" where
  "callTool rt c name args w =
     (case dispatch rt c name args w of
        (Inr result, w') \<Rightarrow>
          (\<lparr> content = [\<lparr> block_type = ''text'', block_text = JSON_stringify result 2 \<rparr>],
             isError = None \<rparr>, w')
      | (Inl e, w') \<Rightarrow>
          (\<lparr> content = [\<lparr> block_type = ''text'',
                           block_text = ''Error: '' @ error_message rt e \<rparr>],
             isError = Some True \<rparr>, w'))"

section \<open>Vocabulary of the properties\<close>

text \<open>A path handed to \<^verbatim>\<open>request\<close> that begins with a slash.\<close>

definition rooted :: "string \<Rightarrow> bool" where
  "rooted p \<longleftrightarrow> (case p of [] \<Rightarrow> False | x # xs \<Rightarrow> x = CHR ''/'')"

text \<open>
  The outcome \<open>r\<close> of a method started on the wire \<open>w\<close> either raised before anything was
  sent, or is the outcome of a single call of \<^verbatim>\<open>request\<close>.
\<close>

definition one_request :: "runtime \<Rightarrow> ObsidianApiClient \<Rightarrow> wire \<Rightarrow> json outcome \<Rightarrow> bool" where
  "one_request rt c w r \<longleftrightarrow>
     (\<exists>e. r = (Inl e, w)) \<or> (\<exists>path options. r = request rt c path options w \<and> rooted path)"

text \<open>
  The defaults the catalog declares for the properties of a tool, as an argument bag.
\<close>

definition declared_defaults :: "tool_definition \<Rightarrow> (string \<rightharpoonup> json)" where
  "declared_defaults t =
     map_of (List.map_filter (\<lambda>p. map_option (Pair (prop_name p)) (prop_default p))
               (tool_properties t))"




text \<open>Environments and a configuration for the examples.\<close>

definition offline :: runtime where
  "offline =
     \<lparr> fetch = (\<lambda>rq. Rejected ''fetch failed''), engine_message = (\<lambda>f. ''TypeError'') \<rparr>"

definition not_found :: runtime where
  "not_found =
     \<lparr> fetch = (\<lambda>rq. Responded
         \<lparr> resp_status = 404, resp_statusText = ''Not Found'',
           resp_json = Inr (JObj [(''error'', JStr ''Not Found'')]) \<rparr>),
       engine_message = (\<lambda>f. ''TypeError'') \<rparr>"

definition json_headers :: "(string \<times> string) list" where
  "json_headers = [(''Content-Type'', ''application/json''), (''Accept'', ''application/json'')]"

definition missing_request :: http_request where
  "missing_request =
     \<lparr> req_url = ''http://localhost:8000/api/files/missing.md'', req_method = ''GET'',
       req_headers = [(''Content-Type'', ''application/json''), (''Accept'', ''application/json'')],
       req_body = None \<rparr>"

definition local_config :: config where
  "local_config = \<lparr> cfg_baseUrl = ''http://localhost:8000'', cfg_apiKey = None \<rparr>"

definition local_client :: ObsidianApiClient where
  "local_client = new_ObsidianApiClient local_config"




section \<open>The shape of a call\<close>

lemma switch_labels:
  "map fst switch_cases =
     [''list_directory'', ''read_file'', ''write_file'', ''delete_item'',
      ''create_or_update_note'', ''get_daily_note'', ''get_recent_notes'', ''search_vault'',
      ''find_related_notes'', ''list_notes'', ''get_note'', ''get_metadata_keys'',
      ''get_metadata_values'']"
  by (simp add: switch_cases_def)

lemma request_wire: "snd (request rt c path options w) = w @ [outgoing c path options]"
  by (simp add: request_def split: fetch_outcome.splits sum.splits)

lemma one_request_request: "rooted path \<Longrightarrow> one_request rt c w (request rt c path options w)"
  by (auto simp: one_request_def)

lemma one_request_converted:
  assumes "\<And>x. one_request rt c w (k x w)"
  shows "one_request rt c w (converted m k w)"
  using assms by (cases m) (auto simp: converted_def one_request_def)

lemmas one_request_intros = one_request_converted one_request_request

lemma dispatch_list_directory:
  "dispatch rt c ''list_directory'' args w =
     listDirectory rt c (arg args ''path'') (arg args ''recursive'') (arg args ''limit'')
       (arg args ''offset'') w"
  by (simp add: dispatch_def switch_cases_def)

lemma dispatch_read_file:
  "dispatch rt c ''read_file'' args w = readFile rt c (arg args ''path'') w"
  by (simp add: dispatch_def switch_cases_def)

lemma dispatch_write_file:
  "dispatch rt c ''write_file'' args w =
     writeFile rt c (arg args ''path'') (arg args ''content'') (arg args ''mode'') w"
  by (simp add: dispatch_def switch_cases_def)

lemma dispatch_delete_item:
  "dispatch rt c ''delete_item'' args w = deleteItem rt c (arg args ''path'') w"
  by (simp add: dispatch_def switch_cases_def)

lemma dispatch_create_or_update_note:
  "dispatch rt c ''create_or_update_note'' args w =
     createOrUpdateNote rt c (arg args ''path'') (arg args ''content'')
       (arg args ''frontmatter'') w"
  by (simp add: dispatch_def switch_cases_def)

lemma dispatch_get_daily_note:
  "dispatch rt c ''get_daily_note'' args w = getDailyNote rt c (arg args ''date'') w"
  by (simp add: dispatch_def switch_cases_def)

lemma dispatch_get_recent_notes:
  "dispatch rt c ''get_recent_notes'' args w = getRecentNotes rt c (arg args ''limit'') w"
  by (simp add: dispatch_def switch_cases_def)

lemma dispatch_search_vault:
  "dispatch rt c ''search_vault'' args w =
     searchVault rt c (arg args ''query'') (arg args ''scope'') (arg args ''path_filter'') w"
  by (simp add: dispatch_def switch_cases_def)

lemma dispatch_find_related_notes:
  "dispatch rt c ''find_related_notes'' args w =
     findRelatedNotes rt c (arg args ''path'') (arg args ''on'') w"
  by (simp add: dispatch_def switch_cases_def)

lemma dispatch_list_notes:
  "dispatch rt c ''list_notes'' args w =
     (if truthy (arg args ''search'') then
        searchVault rt c (arg args ''search'')
          (Some (JArr [JStr ''content'', JStr ''filename'', JStr ''tags''])) None w
      else listNotes rt c w)"
  by (simp add: dispatch_def switch_cases_def)

lemma dispatch_get_note:
  "dispatch rt c ''get_note'' args w = getNote rt c (arg args ''path'') w"
  by (simp add: dispatch_def switch_cases_def)

lemma dispatch_get_metadata_keys:
  "dispatch rt c ''get_metadata_keys'' args w = getMetadataKeys rt c w"
  by (simp add: dispatch_def switch_cases_def)

lemma dispatch_get_metadata_values:
  "dispatch rt c ''get_metadata_values'' args w = getMetadataValues rt c (arg args ''key'') w"
  by (simp add: dispatch_def switch_cases_def)

lemmas dispatch_simps =
  dispatch_list_directory dispatch_read_file dispatch_write_file dispatch_delete_item
  dispatch_create_or_update_note dispatch_get_daily_note dispatch_get_recent_notes
  dispatch_search_vault dispatch_find_related_notes dispatch_list_notes dispatch_get_note
  dispatch_get_metadata_keys dispatch_get_metadata_values

lemma dispatch_unknown:
  "name \<notin> set (map fst switch_cases) \<Longrightarrow>
   dispatch rt c name args w = (Inl (Error (''Unknown tool: '' @ name)), w)"
proof -
  assume "name \<notin> set (map fst switch_cases)"
  then have "map_of switch_cases name = None" by (simp add: map_of_eq_None_iff)
  then show ?thesis by (simp add: dispatch_def)
qed

lemma one_request_listDirectory: "one_request rt c w (listDirectory rt c p r l off w)"
  unfolding listDirectory_def by (intro one_request_intros) (simp add: rooted_def)

lemma one_request_readFile: "one_request rt c w (readFile rt c p w)"
  unfolding readFile_def by (intro one_request_intros) (simp add: rooted_def)

lemma one_request_writeFile: "one_request rt c w (writeFile rt c p ct m w)"
  unfolding writeFile_def by (intro one_request_intros) (simp add: rooted_def)

lemma one_request_deleteItem: "one_request rt c w (deleteItem rt c p w)"
  unfolding deleteItem_def by (intro one_request_intros) (simp add: rooted_def)

lemma one_request_createOrUpdateNote: "one_request rt c w (createOrUpdateNote rt c p ct f w)"
  unfolding createOrUpdateNote_def by (intro one_request_intros) (simp add: rooted_def)

lemma one_request_getDailyNote: "one_request rt c w (getDailyNote rt c d w)"
  unfolding getDailyNote_def by (intro one_request_intros) (simp add: rooted_def)

lemma one_request_getRecentNotes: "one_request rt c w (getRecentNotes rt c l w)"
  unfolding getRecentNotes_def by (intro one_request_intros) (simp add: rooted_def)

lemma one_request_searchVault: "one_request rt c w (searchVault rt c q s pf w)"
  unfolding searchVault_def by (intro one_request_intros) (simp add: rooted_def)

lemma one_request_findRelatedNotes: "one_request rt c w (findRelatedNotes rt c p on w)"
  unfolding findRelatedNotes_def
  by (rule one_request_converted) (auto simp: rooted_def intro: one_request_request)

lemma one_request_listNotes: "one_request rt c w (listNotes rt c w)"
  unfolding listNotes_def by (intro one_request_intros) (simp add: rooted_def)

lemma one_request_getNote: "one_request rt c w (getNote rt c p w)"
  unfolding getNote_def by (intro one_request_intros) (simp add: rooted_def)

lemma one_request_getMetadataKeys: "one_request rt c w (getMetadataKeys rt c w)"
  unfolding getMetadataKeys_def by (intro one_request_intros) (simp add: rooted_def)

lemma one_request_getMetadataValues: "one_request rt c w (getMetadataValues rt c k w)"
  unfolding getMetadataValues_def by (intro one_request_intros) (simp add: rooted_def)

lemmas one_request_methods =
  one_request_listDirectory one_request_readFile one_request_writeFile one_request_deleteItem
  one_request_createOrUpdateNote one_request_getDailyNote one_request_getRecentNotes
  one_request_searchVault one_request_findRelatedNotes one_request_listNotes
  one_request_getNote one_request_getMetadataKeys one_request_getMetadataValues

lemma one_request_dispatch: "one_request rt c w (dispatch rt c name args w)"
proof (cases "name \<in> set (map fst switch_cases)")
  case False
  then show ?thesis by (simp add: dispatch_unknown one_request_def)
next
  case True
  then have "name = ''list_directory'' \<or> name = ''read_file'' \<or> name = ''write_file''
    \<or> name = ''delete_item'' \<or> name = ''create_or_update_note''
    \<or> name = ''get_daily_note'' \<or> name = ''get_recent_notes'' \<or> name = ''search_vault''
    \<or> name = ''find_related_notes'' \<or> name = ''list_notes'' \<or> name = ''get_note''
    \<or> name = ''get_metadata_keys'' \<or> name = ''get_metadata_values''"
    by (simp only: switch_labels set_simps insert_iff empty_iff simp_thms)
  then show ?thesis
    by (elim disjE) (simp_all only: dispatch_simps one_request_methods simp_thms split: if_split)
qed

lemma catalog_names:
  "map tool_name tools =
     [''list_directory'', ''read_file'', ''write_file'', ''delete_item'',
      ''create_or_update_note'', ''get_daily_note'', ''get_recent_notes'', ''search_vault'',
      ''find_related_notes'', ''get_note'', ''list_notes'', ''get_metadata_keys'',
      ''get_metadata_values'']"
  by (simp add: tools_def tool_def_def)

lemma catalog_labels: "set (map tool_name tools) = set (map fst switch_cases)"
  unfolding switch_labels catalog_names by (simp add: insert_commute)

section \<open>The catalog and the dispatcher\<close>

text \<open>
  Claim C1. The names advertised by the list-tools catalog are exactly the case labels of
  the call handler's switch: the two sets are equal, no name is advertised twice, no label
  occurs twice (so a name of the catalog has exactly one case), and the default case is
  reached exactly by the names outside the catalog.
\<close>

theorem catalog_dispatch_lockstep:
  "set (map tool_name tools) = set (map fst switch_cases)
   \<and> distinct (map tool_name tools)
   \<and> distinct (map fst switch_cases)
   \<and> (map_of switch_cases name = None) = (name \<notin> set (map tool_name tools))"
proof -
  have d1: "distinct (map tool_name tools)"
    unfolding catalog_names by simp
  have d2: "distinct (map fst switch_cases)"
    unfolding switch_labels by simp
  have "(map_of switch_cases name = None) = (name \<notin> set (map fst switch_cases))"
    by (simp add: map_of_eq_None_iff)
  with catalog_labels d1 d2 show ?thesis by simp
qed

section \<open>Unknown tools\<close>

text \<open>
  Claim C3. A call whose tool name is not in the catalog returns an error envelope
  (\<open>isError\<close> set) whose text is \<^verbatim>\<open>Error: Unknown tool: \<close> followed by the name as given;
  the handler returns this envelope as its value, and nothing is sent.
\<close>

theorem unknown_tool_error_envelope:
  assumes "name \<notin> set (map tool_name tools)"
  shows "callTool rt c name args w =
           (\<lparr> content = [\<lparr> block_type = ''text'',
                            block_text = ''Error: Unknown tool: '' @ name \<rparr>],
              isError = Some True \<rparr>, w)"
proof -
  have "name \<notin> set (map fst switch_cases)"
    unfolding catalog_labels [symmetric] by (rule assms)
  then have "dispatch rt c name args w = (Inl (Error (''Unknown tool: '' @ name)), w)"
    by (rule dispatch_unknown)
  then show ?thesis
    by (simp add: callTool_def error_message_def)
qed

theorem unknown_tool_error_envelope_witness:
  "''not_a_real_tool'' \<notin> set (map tool_name tools)
   \<and> callTool offline local_client ''not_a_real_tool'' None [] =
       (\<lparr> content = [\<lparr> block_type = ''text'',
                        block_text = ''Error: Unknown tool: not_a_real_tool'' \<rparr>],
          isError = Some True \<rparr>, [])"
proof -
  have h: "''not_a_real_tool'' \<notin> set (map tool_name tools)"
    unfolding catalog_names by simp
  show ?thesis
    using h unknown_tool_error_envelope [OF h, of offline local_client None "[]"]
    by simp
qed

section \<open>Failures of the endpoint\<close>

text \<open>
  Claim C4. When a call sends a request and the response to it has a status outside
  200..299, the result is an error envelope whose text carries the status in decimal and
  the status text, and that request is the only one the call sends.
\<close>

theorem non_2xx_error_envelope:
  assumes sent: "snd (callTool rt c name args w) = w @ rq # rest"
    and resp: "fetch rt rq = Responded resp"
    and status: "resp_status resp < 200 \<or> 299 < resp_status resp"
  shows "callTool rt c name args w =
           (\<lparr> content = [\<lparr> block_type = ''text'',
                            block_text = ''Error: API request failed: ''
                              @ nat_toString (resp_status resp) @ '' '' @ resp_statusText resp \<rparr>],
              isError = Some True \<rparr>, w @ [rq])"
proof -
  have wire: "snd (callTool rt c name args w) = snd (dispatch rt c name args w)"
    by (simp add: callTool_def split: prod.splits sum.splits)
  have "one_request rt c w (dispatch rt c name args w)"
    by (rule one_request_dispatch)
  then consider e where "dispatch rt c name args w = (Inl e, w)"
    | path options where "dispatch rt c name args w = request rt c path options w"
    unfolding one_request_def by blast
  then show ?thesis
  proof cases
    case 1
    with sent wire show ?thesis by simp
  next
    case 2
    have "snd (dispatch rt c name args w) = w @ [outgoing c path options]"
      unfolding 2 by (rule request_wire)
    with sent wire have rq: "rq = outgoing c path options" and "rest = []" by simp_all
    from status have "\<not> ok resp" by (auto simp: ok_def)
    with resp rq have "dispatch rt c name args w =
      (Inl (Error (''API request failed: '' @ nat_toString (resp_status resp)
                     @ '' '' @ resp_statusText resp)), w @ [rq])"
      unfolding 2 by (simp add: request_def)
    then show ?thesis by (simp add: callTool_def error_message_def)
  qed
qed

lemma read_missing:
  "snd (callTool not_found local_client ''read_file'' (Some [''path'' \<mapsto> JStr ''missing.md'']) [])
     = [] @ missing_request # []"
  by (simp add: callTool_def dispatch_read_file readFile_def converted_def arg_def
      encodeURIComponent_def ToString_val_def and_then_def encodeURIComponent_string_def
      uri_unreserved_def request_def outgoing_def no_options_def local_client_def
      new_ObsidianApiClient_def local_config_def not_found_def ok_def missing_request_def)

theorem non_2xx_error_envelope_witness:
  "callTool not_found local_client ''read_file'' (Some [''path'' \<mapsto> JStr ''missing.md'']) [] =
     (\<lparr> content = [\<lparr> block_type = ''text'',
                      block_text = ''Error: API request failed: 404 Not Found'' \<rparr>],
        isError = Some True \<rparr>, [missing_request])"
proof -
  have r: "fetch not_found missing_request = Responded
         \<lparr> resp_status = 404, resp_statusText = ''Not Found'',
           resp_json = Inr (JObj [(''error'', JStr ''Not Found'')]) \<rparr>"
    by (simp add: not_found_def)
  show ?thesis
    using non_2xx_error_envelope [OF read_missing r]
    by (simp add: nat_toString.simps digit_char_def)
qed

section \<open>The prefix of every URL\<close>

lemma callTool_wire: "snd (callTool rt c name args w) = snd (dispatch rt c name args w)"
  by (simp add: callTool_def split: prod.splits sum.splits)

text \<open>
  Claim C10. Whatever a call of a tool sends goes to the configured base URL followed by
  \<^verbatim>\<open>/api\<close> and a path beginning with a slash; and \<^verbatim>\<open>request\<close>, the only place that calls
  \<^verbatim>\<open>fetch\<close>, puts the base URL and \<^verbatim>\<open>/api\<close> in front of the path of every method.
\<close>

theorem api_prefix_on_every_request:
  "(\<exists>sent. snd (callTool rt (new_ObsidianApiClient cfg) name args w) = w @ sent
      \<and> (\<forall>rq \<in> set sent. \<exists>path. rooted path \<and> req_url rq = cfg_baseUrl cfg @ ''/api'' @ path))
   \<and> (\<exists>rq. snd (request rt (new_ObsidianApiClient cfg) path options w) = w @ [rq]
          \<and> req_url rq = cfg_baseUrl cfg @ ''/api'' @ path)"
proof
  let ?c = "new_ObsidianApiClient cfg"
  have "one_request rt ?c w (dispatch rt ?c name args w)"
    by (rule one_request_dispatch)
  then consider e where "dispatch rt ?c name args w = (Inl e, w)"
    | p opts where "dispatch rt ?c name args w = request rt ?c p opts w" and "rooted p"
    unfolding one_request_def by blast
  then show "\<exists>sent. snd (callTool rt ?c name args w) = w @ sent
      \<and> (\<forall>rq \<in> set sent. \<exists>path. rooted path \<and> req_url rq = cfg_baseUrl cfg @ ''/api'' @ path)"
  proof cases
    case 1
    then have "snd (callTool rt ?c name args w) = w @ []"
      by (simp add: callTool_wire)
    then show ?thesis by fastforce
  next
    case 2
    have "snd (callTool rt ?c name args w) = w @ [outgoing ?c p opts]"
      by (simp add: callTool_wire 2 request_wire)
    moreover have "req_url (outgoing ?c p opts) = cfg_baseUrl cfg @ ''/api'' @ p"
      by (simp add: outgoing_def new_ObsidianApiClient_def)
    ultimately show ?thesis using \<open>rooted p\<close> by fastforce
  qed
next
  let ?c = "new_ObsidianApiClient cfg"
  have "snd (request rt ?c path options w) = w @ [outgoing ?c path options]"
    by (rule request_wire)
  moreover have "req_url (outgoing ?c path options) = cfg_baseUrl cfg @ ''/api'' @ path"
    by (simp add: outgoing_def new_ObsidianApiClient_def)
  ultimately show "\<exists>rq. snd (request rt ?c path options w) = w @ [rq]
          \<and> req_url rq = cfg_baseUrl cfg @ ''/api'' @ path"
    by blast
qed

lemmas eval_defs =
  callTool_def converted_def arg_def encodeURIComponent_def ToString_val_def and_then_def
  encodeURIComponent_string_def uri_unreserved_def request_def outgoing_def no_options_def
  local_client_def new_ObsidianApiClient_def local_config_def ok_def
  URLSearchParams_toString_def form_encode_def form_unreserved_def percent_byte_def
  hex_upper_def default_param_def error_message_def

theorem api_prefix_on_every_request_witness:
  "map req_url (snd (callTool offline (new_ObsidianApiClient local_config) ''get_metadata_keys'' None []))
     = [''http://localhost:8000/api/metadata/keys'']
   \<and> rooted ''/metadata/keys''"
  using api_prefix_on_every_request [of offline local_config "''get_metadata_keys''" None "[]"]
  by (simp add: dispatch_get_metadata_keys getMetadataKeys_def eval_defs offline_def rooted_def)

section \<open>The legacy listing of notes\<close>

lemma dispatch_list_notes_plain:
  "\<not> truthy (arg args ''search'') \<Longrightarrow> dispatch rt c ''list_notes'' args w = listNotes rt c w"
  by (simp add: dispatch_list_notes)

lemma list_notes_plain:
  assumes "\<not> truthy (arg args ''search'')"
  shows "callTool rt c ''list_notes'' args w = callTool rt c ''list_notes'' None w"
    and "snd (callTool rt c ''list_notes'' args w) =
           w @ [\<lparr> req_url = baseUrl c @ ''/notes'', req_method = ''GET'',
                   req_headers = headers c, req_body = None \<rparr>]"
proof -
  have none: "\<not> truthy (arg None ''search'')" by (simp add: arg_def)
  show "callTool rt c ''list_notes'' args w = callTool rt c ''list_notes'' None w"
    by (simp add: callTool_def dispatch_list_notes_plain [OF assms]
        dispatch_list_notes_plain [OF none])
  show "snd (callTool rt c ''list_notes'' args w) =
           w @ [\<lparr> req_url = baseUrl c @ ''/notes'', req_method = ''GET'',
                   req_headers = headers c, req_body = None \<rparr>]"
    by (simp add: callTool_wire dispatch_list_notes_plain [OF assms] listNotes_def
        request_wire outgoing_def no_options_def)
qed

lemma list_notes_search:
  assumes "arg args ''search'' = Some (JStr s)" and "s \<noteq> []"
  shows "snd (callTool rt c ''list_notes'' args w) =
           w @ [\<lparr> req_url = baseUrl c @ ''/vault/search?''
                     @ URLSearchParams_toString
                         [(''query'', s), (''scope'', ''content,filename,tags'')],
                   req_method = ''GET'', req_headers = headers c, req_body = None \<rparr>]"
  using assms
  by (simp add: callTool_wire dispatch_list_notes searchVault_def converted_def and_then_def
      default_param_def ToString_val_def request_wire outgoing_def no_options_def)

lemma local_client_simps:
  "baseUrl local_client = ''http://localhost:8000/api''"
  "headers local_client = json_headers"
  by (simp_all add: local_client_def new_ObsidianApiClient_def local_config_def json_headers_def)

lemma form_encode_scope: "form_encode ''content,filename,tags'' = ''content%2Cfilename%2Ctags''"
  by (simp add: form_encode_def form_unreserved_def percent_byte_def hex_upper_def)

text \<open>
  Claim C9. A \<^verbatim>\<open>list_notes\<close> call whose \<^verbatim>\<open>search\<close> argument is the empty string behaves as
  the call with no arguments at all: one \<^verbatim>\<open>GET\<close> to \<^verbatim>\<open>/notes\<close>, no redirect to the search
  endpoint.
\<close>

theorem list_notes_empty_search:
  assumes "arg args ''search'' = Some (JStr [])"
  shows "callTool rt c ''list_notes'' args w = callTool rt c ''list_notes'' None w
         \<and> snd (callTool rt c ''list_notes'' args w) =
             w @ [\<lparr> req_url = baseUrl c @ ''/notes'', req_method = ''GET'',
                     req_headers = headers c, req_body = None \<rparr>]"
proof -
  from assms have "\<not> truthy (arg args ''search'')" by simp
  then show ?thesis by (intro conjI list_notes_plain)
qed

theorem list_notes_empty_search_witness:
  "callTool offline local_client ''list_notes'' (Some [''search'' \<mapsto> JStr '''']) [] =
     callTool offline local_client ''list_notes'' None []
   \<and> snd (callTool offline local_client ''list_notes'' (Some [''search'' \<mapsto> JStr '''']) []) =
     [\<lparr> req_url = ''http://localhost:8000/api/notes'',
         req_method = ''GET'', req_headers = json_headers, req_body = None \<rparr>]"
proof -
  have h: "arg (Some [''search'' \<mapsto> JStr '''']) ''search'' = Some (JStr [])"
    by (simp add: arg_def)
  note t = list_notes_empty_search [OF h, of offline local_client "[]"]
  have "snd (callTool offline local_client ''list_notes'' (Some [''search'' \<mapsto> JStr '''']) []) =
     [\<lparr> req_url = ''http://localhost:8000/api/notes'',
         req_method = ''GET'', req_headers = json_headers, req_body = None \<rparr>]"
    using t [THEN conjunct2] by (simp add: local_client_simps)
  with t [THEN conjunct1] show ?thesis by (intro conjI)
qed

text \<open>
  Claim C2, as stated, fails for the empty filter string: it is a string supplied in
  \<^verbatim>\<open>search\<close>, and the request goes to \<^verbatim>\<open>/notes\<close>.
\<close>

theorem list_notes_empty_filter_counterexample:
  "arg (Some [''search'' \<mapsto> JStr '''']) ''search'' = Some (JStr '''')
   \<and> map req_url (snd (callTool offline local_client ''list_notes''
                         (Some [''search'' \<mapsto> JStr '''']) []))
       = [''http://localhost:8000/api/notes'']"
  by (simp add: arg_def callTool_wire dispatch_list_notes listNotes_def request_wire
      outgoing_def no_options_def local_client_simps)

text \<open>
  Claim C2, amended. A \<^verbatim>\<open>list_notes\<close> call with a non-empty string in \<^verbatim>\<open>search\<close> sends one
  \<^verbatim>\<open>GET\<close> to \<^verbatim>\<open>/vault/search\<close> whose parameters are the query and the scope
  \<^verbatim>\<open>content,filename,tags\<close>; a call with no \<^verbatim>\<open>search\<close> argument sends one \<^verbatim>\<open>GET\<close> to
  \<^verbatim>\<open>/notes\<close>.
\<close>

theorem list_notes_redirect:
  "(arg args ''search'' = Some (JStr s) \<and> s \<noteq> [] \<longrightarrow>
      snd (callTool rt c ''list_notes'' args w) =
        w @ [\<lparr> req_url = baseUrl c @ ''/vault/search?''
                  @ URLSearchParams_toString
                      [(''query'', s), (''scope'', ''content,filename,tags'')],
                req_method = ''GET'', req_headers = headers c, req_body = None \<rparr>])
   \<and> (arg args ''search'' = None \<longrightarrow>
      snd (callTool rt c ''list_notes'' args w) =
        w @ [\<lparr> req_url = baseUrl c @ ''/notes'', req_method = ''GET'',
                req_headers = headers c, req_body = None \<rparr>])"
proof (intro conjI impI)
  assume "arg args ''search'' = Some (JStr s) \<and> s \<noteq> []"
  then show "snd (callTool rt c ''list_notes'' args w) =
        w @ [\<lparr> req_url = baseUrl c @ ''/vault/search?''
                  @ URLSearchParams_toString
                      [(''query'', s), (''scope'', ''content,filename,tags'')],
                req_method = ''GET'', req_headers = headers c, req_body = None \<rparr>]"
    by (simp add: list_notes_search)
next
  assume "arg args ''search'' = None"
  then have "\<not> truthy (arg args ''search'')" by simp
  then show "snd (callTool rt c ''list_notes'' args w) =
        w @ [\<lparr> req_url = baseUrl c @ ''/notes'', req_method = ''GET'',
                req_headers = headers c, req_body = None \<rparr>]"
    by (rule list_notes_plain)
qed

theorem list_notes_redirect_witness:
  "snd (callTool offline local_client ''list_notes'' (Some [''search'' \<mapsto> JStr ''todo'']) []) =
     [\<lparr> req_url = ''http://localhost:8000/api/vault/search?query=todo&scope=content%2Cfilename%2Ctags'',
         req_method = ''GET'', req_headers = json_headers, req_body = None \<rparr>]
   \<and> snd (callTool offline local_client ''list_notes'' None []) =
     [\<lparr> req_url = ''http://localhost:8000/api/notes'',
         req_method = ''GET'', req_headers = json_headers, req_body = None \<rparr>]"
  using list_notes_redirect [of "Some [''search'' \<mapsto> JStr ''todo'']" "''todo''" offline local_client "[]"]
    list_notes_redirect [of None s offline local_client "[]" for s]
  by (simp add: arg_def local_client_simps URLSearchParams_toString_def form_encode_scope)
    (simp add: form_encode_def form_unreserved_def)

section \<open>Paths as one segment\<close>






lemma converted_Inr: "converted (Inr x) k w = k x w"
  by (simp add: converted_def)

lemma encodeURIComponent_JStr: "encodeURIComponent (Some (JStr p)) = Inr (encodeURIComponent_string p)"
  by (simp add: encodeURIComponent_def ToString_val_def and_then_def)




section \<open>Bodies of the legacy note operations\<close>

lemma stringify_empty_object: "JSON_stringify_object [] = ''{}''"
  by (simp add: JSON_stringify_object_def JSON_stringify_def bracketed_def)

text \<open>
  Claim C8. \<^verbatim>\<open>updateNote\<close> with only a path sends the body \<^verbatim>\<open>{}\<close>; in general its body is
  the object of those of \<^verbatim>\<open>content\<close> and \<^verbatim>\<open>frontmatter\<close> that were supplied. \<^verbatim>\<open>createNote\<close>
  without a frontmatter sends the object of the supplied \<^verbatim>\<open>path\<close> and \<^verbatim>\<open>content\<close>, which has
  no key \<^verbatim>\<open>frontmatter\<close>.
\<close>

theorem note_bodies_hold_supplied_fields_only:
  "snd (updateNote rt c (Some (JStr p)) None None w) =
     w @ [\<lparr> req_url = baseUrl c @ ''/notes/'' @ encodeURIComponent_string p,
             req_method = ''PATCH'', req_headers = headers c, req_body = Some ''{}'' \<rparr>]
   \<and> snd (updateNote rt c (Some (JStr p)) ct frontmatter w) =
     w @ [\<lparr> req_url = baseUrl c @ ''/notes/'' @ encodeURIComponent_string p,
             req_method = ''PATCH'', req_headers = headers c,
             req_body = Some (JSON_stringify
               (JObj (defined_properties [(''content'', ct), (''frontmatter'', frontmatter)])) 0) \<rparr>]
   \<and> snd (createNote rt c path ct None w) =
     w @ [\<lparr> req_url = baseUrl c @ ''/notes'',
             req_method = ''POST'', req_headers = headers c,
             req_body = Some (JSON_stringify
               (JObj (defined_properties [(''path'', path), (''content'', ct)])) 0) \<rparr>]
   \<and> ''frontmatter'' \<notin> fst ` set (defined_properties [(''path'', path), (''content'', ct)])"
proof (intro conjI)
  show "snd (updateNote rt c (Some (JStr p)) None None w) =
     w @ [\<lparr> req_url = baseUrl c @ ''/notes/'' @ encodeURIComponent_string p,
             req_method = ''PATCH'', req_headers = headers c, req_body = Some ''{}'' \<rparr>]"
    by (simp add: updateNote_def encodeURIComponent_JStr converted_Inr request_wire outgoing_def
        stringify_empty_object)
  show "snd (updateNote rt c (Some (JStr p)) ct frontmatter w) =
     w @ [\<lparr> req_url = baseUrl c @ ''/notes/'' @ encodeURIComponent_string p,
             req_method = ''PATCH'', req_headers = headers c,
             req_body = Some (JSON_stringify
               (JObj (defined_properties [(''content'', ct), (''frontmatter'', frontmatter)])) 0) \<rparr>]"
    by (cases ct; cases frontmatter)
      (simp_all add: updateNote_def encodeURIComponent_JStr converted_Inr request_wire outgoing_def
        JSON_stringify_object_def)
  show "snd (createNote rt c path ct None w) =
     w @ [\<lparr> req_url = baseUrl c @ ''/notes'',
             req_method = ''POST'', req_headers = headers c,
             req_body = Some (JSON_stringify
               (JObj (defined_properties [(''path'', path), (''content'', ct)])) 0) \<rparr>]"
    by (simp add: createNote_def request_wire outgoing_def JSON_stringify_object_def)
  show "''frontmatter'' \<notin> fst ` set (defined_properties [(''path'', path), (''content'', ct)])"
    by (cases path; cases ct) simp_all
qed

lemmas stringify_defs =
  JSON_stringify_def bracketed_def QuoteJSONString_def json_escape_def dquote_def backslash_def

theorem note_bodies_hold_supplied_fields_only_witness:
  "snd (updateNote offline local_client (Some (JStr ''a'')) None None []) =
     [\<lparr> req_url = ''http://localhost:8000/api/notes/a'', req_method = ''PATCH'',
         req_headers = json_headers, req_body = Some ''{}'' \<rparr>]
   \<and> snd (createNote offline local_client (Some (JStr ''a'')) (Some (JStr ''b'')) None []) =
     [\<lparr> req_url = ''http://localhost:8000/api/notes'', req_method = ''POST'',
         req_headers = json_headers,
         req_body = Some ([CHR ''{'', dquote] @ ''path'' @ [dquote, CHR '':'', dquote] @ ''a''
           @ [dquote, CHR '','', dquote] @ ''content'' @ [dquote, CHR '':'', dquote] @ ''b''
           @ [dquote, CHR ''}'']) \<rparr>]"
  using note_bodies_hold_supplied_fields_only
    [of offline local_client "''a''" "[]" None None "Some (JStr ''a'')"]
    note_bodies_hold_supplied_fields_only
    [of offline local_client "''a''" "[]" "Some (JStr ''b'')" None "Some (JStr ''a'')"]
  by (simp add: local_client_simps stringify_defs encodeURIComponent_string_def uri_unreserved_def)

section \<open>Defaults of omitted arguments\<close>

lemma arg_defaults_some:
  "d k = Some v \<Longrightarrow> default_param (arg (Some (d ++ m)) k) v = default_param (arg (Some m) k) v"
  by (simp add: default_param_def arg_def map_add_def split: option.splits)

lemma arg_defaults_none: "d k = None \<Longrightarrow> arg (Some (d ++ m)) k = arg (Some m) k"
  by (simp add: arg_def map_add_def split: option.splits)

lemmas method_defs =
  listDirectory_def readFile_def writeFile_def deleteItem_def createOrUpdateNote_def
  getDailyNote_def getRecentNotes_def searchVault_def findRelatedNotes_def listNotes_def
  getNote_def getMetadataKeys_def getMetadataValues_def

lemma defaults_dispatch:
  assumes "t \<in> set tools"
  shows "dispatch rt c (tool_name t) (Some (declared_defaults t ++ m)) w =
         dispatch rt c (tool_name t) (Some m) w"
proof -
  from assms have "t = tools ! 0 \<or> t = tools ! 1 \<or> t = tools ! 2 \<or> t = tools ! 3
    \<or> t = tools ! 4 \<or> t = tools ! 5 \<or> t = tools ! 6 \<or> t = tools ! 7 \<or> t = tools ! 8
    \<or> t = tools ! 9 \<or> t = tools ! 10 \<or> t = tools ! 11 \<or> t = tools ! 12"
    by (simp add: tools_def)
  then show ?thesis
    apply (elim disjE)
    apply (simp_all add: tools_def tool_def_def schema_prop_def declared_defaults_def
        List.map_filter_simps dispatch_simps arg_defaults_some arg_defaults_none method_defs)
    done
qed

lemma arg_only_defaults_some:
  "d k = Some v \<Longrightarrow> default_param (arg (Some d) k) v = default_param (arg None k) v"
  by (simp add: default_param_def arg_def)

lemma arg_only_defaults_none: "d k = None \<Longrightarrow> arg (Some d) k = arg None k"
  by (simp add: arg_def)

lemma defaults_dispatch_None:
  assumes "t \<in> set tools"
  shows "dispatch rt c (tool_name t) (Some (declared_defaults t)) w =
         dispatch rt c (tool_name t) None w"
proof -
  from assms have "t = tools ! 0 \<or> t = tools ! 1 \<or> t = tools ! 2 \<or> t = tools ! 3
    \<or> t = tools ! 4 \<or> t = tools ! 5 \<or> t = tools ! 6 \<or> t = tools ! 7 \<or> t = tools ! 8
    \<or> t = tools ! 9 \<or> t = tools ! 10 \<or> t = tools ! 11 \<or> t = tools ! 12"
    by (simp add: tools_def)
  then show ?thesis
    apply (elim disjE)
    apply (simp_all add: tools_def tool_def_def schema_prop_def declared_defaults_def
        dispatch_simps arg_only_defaults_some arg_only_defaults_none method_defs)
    done
qed

lemma callTool_cong:
  "dispatch rt c name a w = dispatch rt c name b w \<Longrightarrow>
   callTool rt c name a w = callTool rt c name b w"
  by (simp add: callTool_def)

lemma write_file_default:
  assumes "arg args ''mode'' = None"
  shows "snd (callTool rt c ''write_file'' args w) =
     w @ [\<lparr> req_url = baseUrl c @ ''/files/write'', req_method = ''POST'',
             req_headers = headers c,
             req_body = Some (JSON_stringify_object
               [(''path'', arg args ''path''), (''content'', arg args ''content''),
                (''mode'', Some (JStr ''overwrite''))]) \<rparr>]"
  by (simp add: callTool_wire dispatch_write_file writeFile_def assms default_param_def
      request_wire outgoing_def)

lemma create_or_update_note_default:
  assumes "arg args ''frontmatter'' = None"
  shows "snd (callTool rt c ''create_or_update_note'' args w) =
     w @ [\<lparr> req_url = baseUrl c @ ''/notes/upsert'', req_method = ''POST'',
             req_headers = headers c,
             req_body = Some (JSON_stringify_object
               [(''path'', arg args ''path''), (''content'', arg args ''content''),
                (''front_matter'', Some (JObj []))]) \<rparr>]"
  by (simp add: callTool_wire dispatch_create_or_update_note createOrUpdateNote_def assms
      default_param_def request_wire outgoing_def)

lemmas form_defs =
  URLSearchParams_toString_def form_encode_def form_unreserved_def percent_byte_def hex_upper_def

lemmas number_defs = number_toString_def nat_toString.simps digit_char_def

lemma get_recent_notes_default:
  assumes "arg args ''limit'' = None"
  shows "snd (callTool rt c ''get_recent_notes'' args w) =
     w @ [\<lparr> req_url = baseUrl c @ ''/vault/notes/recent?limit=5'', req_method = ''GET'',
             req_headers = headers c, req_body = None \<rparr>]"
  by (simp add: callTool_wire dispatch_get_recent_notes getRecentNotes_def assms
      default_param_def and_then_def converted_Inr number_defs form_defs
      request_wire outgoing_def no_options_def)

lemma list_directory_default:
  assumes "arg args ''path'' = None" "arg args ''recursive'' = None"
    "arg args ''limit'' = None" "arg args ''offset'' = None"
  shows "snd (callTool rt c ''list_directory'' args w) =
     w @ [\<lparr> req_url = baseUrl c @ ''/vault/directory?path=.&recursive=false&limit=50&offset=0'',
             req_method = ''GET'', req_headers = headers c, req_body = None \<rparr>]"
  by (simp add: callTool_wire dispatch_list_directory listDirectory_def assms
      default_param_def and_then_def converted_Inr number_defs form_defs
      request_wire outgoing_def no_options_def)

lemma get_daily_note_default:
  assumes "arg args ''date'' = None"
  shows "snd (callTool rt c ''get_daily_note'' args w) =
     w @ [\<lparr> req_url = baseUrl c @ ''/vault/notes/daily?date=today'', req_method = ''GET'',
             req_headers = headers c, req_body = None \<rparr>]"
  by (simp add: callTool_wire dispatch_get_daily_note getDailyNote_def assms
      default_param_def and_then_def converted_Inr form_defs
      request_wire outgoing_def no_options_def)

lemma search_vault_default:
  assumes "arg args ''query'' = Some (JStr q)" "arg args ''scope'' = None"
    "arg args ''path_filter'' = None"
  shows "snd (callTool rt c ''search_vault'' args w) =
     w @ [\<lparr> req_url = baseUrl c @ ''/vault/search?''
               @ URLSearchParams_toString [(''query'', q), (''scope'', ''content,filename,tags'')],
             req_method = ''GET'', req_headers = headers c, req_body = None \<rparr>]"
  by (simp add: callTool_wire dispatch_search_vault searchVault_def assms
      default_param_def and_then_def converted_Inr ToString_val_def
      request_wire outgoing_def no_options_def)

lemma find_related_notes_default:
  assumes "arg args ''path'' = Some (JStr p)" "arg args ''on'' = None"
  shows "snd (callTool rt c ''find_related_notes'' args w) =
     w @ [\<lparr> req_url = baseUrl c @ ''/vault/notes/related/'' @ encodeURIComponent_string p
               @ ''?'' @ URLSearchParams_toString [(''on'', ''tags,links'')],
             req_method = ''GET'', req_headers = headers c, req_body = None \<rparr>]"
  by (simp add: callTool_wire dispatch_find_related_notes findRelatedNotes_def assms
      default_param_def and_then_def converted_Inr encodeURIComponent_JStr
      request_wire outgoing_def no_options_def)

text \<open>
  Claim C5. For every tool of the catalog, a call behaves as the call in which every
  omitted property is given the default the catalog declares for it. In particular an
  omitted \<^verbatim>\<open>mode\<close> of \<^verbatim>\<open>write_file\<close> gives the body \<^verbatim>\<open>mode\<close> \<^verbatim>\<open>overwrite\<close>; an omitted
  \<^verbatim>\<open>limit\<close> of \<^verbatim>\<open>get_recent_notes\<close> gives \<^verbatim>\<open>limit=5\<close>; \<^verbatim>\<open>list_directory\<close> with nothing
  given asks for path \<^verbatim>\<open>.\<close>, recursive \<^verbatim>\<open>false\<close>, limit 50 and offset 0; an omitted
  \<^verbatim>\<open>date\<close> of \<^verbatim>\<open>get_daily_note\<close> gives \<^verbatim>\<open>date=today\<close>; an omitted \<^verbatim>\<open>scope\<close> of
  \<^verbatim>\<open>search_vault\<close> gives the scope \<^verbatim>\<open>content,filename,tags\<close>; an omitted \<^verbatim>\<open>frontmatter\<close>
  gives an empty \<^verbatim>\<open>front_matter\<close>; an omitted \<^verbatim>\<open>on\<close> gives \<^verbatim>\<open>tags,links\<close>.
\<close>

theorem documented_defaults_applied:
  "(\<forall>t \<in> set tools.
      (\<forall>m. callTool rt c (tool_name t) (Some m) w =
           callTool rt c (tool_name t) (Some (declared_defaults t ++ m)) w)
      \<and> callTool rt c (tool_name t) None w =
          callTool rt c (tool_name t) (Some (declared_defaults t)) w)
   \<and> (\<forall>args. arg args ''mode'' = None \<longrightarrow>
        snd (callTool rt c ''write_file'' args w) =
          w @ [\<lparr> req_url = baseUrl c @ ''/files/write'', req_method = ''POST'',
                  req_headers = headers c,
                  req_body = Some (JSON_stringify_object
                    [(''path'', arg args ''path''), (''content'', arg args ''content''),
                     (''mode'', Some (JStr ''overwrite''))]) \<rparr>])
   \<and> (\<forall>args. arg args ''limit'' = None \<longrightarrow>
        snd (callTool rt c ''get_recent_notes'' args w) =
          w @ [\<lparr> req_url = baseUrl c @ ''/vault/notes/recent?limit=5'', req_method = ''GET'',
                  req_headers = headers c, req_body = None \<rparr>])
   \<and> (\<forall>args. arg args ''path'' = None \<and> arg args ''recursive'' = None
          \<and> arg args ''limit'' = None \<and> arg args ''offset'' = None \<longrightarrow>
        snd (callTool rt c ''list_directory'' args w) =
          w @ [\<lparr> req_url = baseUrl c
                    @ ''/vault/directory?path=.&recursive=false&limit=50&offset=0'',
                  req_method = ''GET'', req_headers = headers c, req_body = None \<rparr>])
   \<and> (\<forall>args. arg args ''date'' = None \<longrightarrow>
        snd (callTool rt c ''get_daily_note'' args w) =
          w @ [\<lparr> req_url = baseUrl c @ ''/vault/notes/daily?date=today'', req_method = ''GET'',
                  req_headers = headers c, req_body = None \<rparr>])
   \<and> (\<forall>args q. arg args ''query'' = Some (JStr q) \<and> arg args ''scope'' = None
          \<and> arg args ''path_filter'' = None \<longrightarrow>
        snd (callTool rt c ''search_vault'' args w) =
          w @ [\<lparr> req_url = baseUrl c @ ''/vault/search?''
                    @ URLSearchParams_toString
                        [(''query'', q), (''scope'', ''content,filename,tags'')],
                  req_method = ''GET'', req_headers = headers c, req_body = None \<rparr>])
   \<and> (\<forall>args. arg args ''frontmatter'' = None \<longrightarrow>
        snd (callTool rt c ''create_or_update_note'' args w) =
          w @ [\<lparr> req_url = baseUrl c @ ''/notes/upsert'', req_method = ''POST'',
                  req_headers = headers c,
                  req_body = Some (JSON_stringify_object
                    [(''path'', arg args ''path''), (''content'', arg args ''content''),
                     (''front_matter'', Some (JObj []))]) \<rparr>])
   \<and> (\<forall>args p. arg args ''path'' = Some (JStr p) \<and> arg args ''on'' = None \<longrightarrow>
        snd (callTool rt c ''find_related_notes'' args w) =
          w @ [\<lparr> req_url = baseUrl c @ ''/vault/notes/related/''
                    @ encodeURIComponent_string p
                    @ ''?'' @ URLSearchParams_toString [(''on'', ''tags,links'')],
                  req_method = ''GET'', req_headers = headers c, req_body = None \<rparr>])"
proof (intro conjI ballI allI impI)
  fix t m
  assume "t \<in> set tools"
  then show "callTool rt c (tool_name t) (Some m) w =
           callTool rt c (tool_name t) (Some (declared_defaults t ++ m)) w"
    by (intro callTool_cong defaults_dispatch [symmetric])
next
  fix t
  assume "t \<in> set tools"
  then show "callTool rt c (tool_name t) None w =
          callTool rt c (tool_name t) (Some (declared_defaults t)) w"
    by (intro callTool_cong defaults_dispatch_None [symmetric])
qed (simp_all only: write_file_default get_recent_notes_default list_directory_default
      get_daily_note_default search_vault_default create_or_update_note_default
      find_related_notes_default)

lemma form_encode_todo: "form_encode ''todo'' = ''todo''" "form_encode ''query'' = ''query''"
  "form_encode ''scope'' = ''scope''"
  by (simp_all add: form_encode_def form_unreserved_def)

theorem documented_defaults_applied_witness:
  "tools ! 5 \<in> set tools
   \<and> callTool offline local_client ''get_daily_note'' None [] =
       callTool offline local_client ''get_daily_note'' (Some [''date'' \<mapsto> JStr ''today'']) []
   \<and> snd (callTool offline local_client ''write_file''
            (Some [''path'' \<mapsto> JStr ''a.md'', ''content'' \<mapsto> JStr ''hi'']) []) =
       [\<lparr> req_url = ''http://localhost:8000/api/files/write'', req_method = ''POST'',
           req_headers = json_headers,
           req_body = Some ([CHR ''{'', dquote] @ ''path'' @ [dquote, CHR '':'', dquote] @ ''a.md''
             @ [dquote, CHR '','', dquote] @ ''content'' @ [dquote, CHR '':'', dquote] @ ''hi''
             @ [dquote, CHR '','', dquote] @ ''mode'' @ [dquote, CHR '':'', dquote] @ ''overwrite''
             @ [dquote, CHR ''}'']) \<rparr>]
   \<and> snd (callTool offline local_client ''get_recent_notes'' None []) =
       [\<lparr> req_url = ''http://localhost:8000/api/vault/notes/recent?limit=5'',
           req_method = ''GET'', req_headers = json_headers, req_body = None \<rparr>]
   \<and> snd (callTool offline local_client ''list_directory'' None []) =
       [\<lparr> req_url = ''http://localhost:8000/api/vault/directory?path=.&recursive=false&limit=50&offset=0'',
           req_method = ''GET'', req_headers = json_headers, req_body = None \<rparr>]
   \<and> snd (callTool offline local_client ''get_daily_note'' None []) =
       [\<lparr> req_url = ''http://localhost:8000/api/vault/notes/daily?date=today'',
           req_method = ''GET'', req_headers = json_headers, req_body = None \<rparr>]
   \<and> snd (callTool offline local_client ''search_vault'' (Some [''query'' \<mapsto> JStr ''todo'']) []) =
       [\<lparr> req_url = ''http://localhost:8000/api/vault/search?query=todo&scope=content%2Cfilename%2Ctags'',
           req_method = ''GET'', req_headers = json_headers, req_body = None \<rparr>]"
proof -
  note t = documented_defaults_applied [of offline local_client "[]"]
  have mem: "tools ! 5 \<in> set tools"
    by (simp add: tools_def)
  have name5: "tool_name (tools ! 5) = ''get_daily_note''"
    by (simp add: tools_def tool_def_def)
  have dflt5: "declared_defaults (tools ! 5) = [''date'' \<mapsto> JStr ''today'']"
    by (simp add: tools_def tool_def_def schema_prop_def declared_defaults_def)
  have general: "callTool offline local_client ''get_daily_note'' None [] =
       callTool offline local_client ''get_daily_note'' (Some [''date'' \<mapsto> JStr ''today'']) []"
    using t [THEN conjunct1, THEN bspec, OF mem, THEN conjunct2]
    by (simp only: name5 dflt5)
  have wf: "snd (callTool offline local_client ''write_file''
            (Some [''path'' \<mapsto> JStr ''a.md'', ''content'' \<mapsto> JStr ''hi'']) []) =
       [\<lparr> req_url = ''http://localhost:8000/api/files/write'', req_method = ''POST'',
           req_headers = json_headers,
           req_body = Some ([CHR ''{'', dquote] @ ''path'' @ [dquote, CHR '':'', dquote] @ ''a.md''
             @ [dquote, CHR '','', dquote] @ ''content'' @ [dquote, CHR '':'', dquote] @ ''hi''
             @ [dquote, CHR '','', dquote] @ ''mode'' @ [dquote, CHR '':'', dquote] @ ''overwrite''
             @ [dquote, CHR ''}'']) \<rparr>]"
    using t [THEN conjunct2, THEN conjunct1, THEN spec,
        of "Some [''path'' \<mapsto> JStr ''a.md'', ''content'' \<mapsto> JStr ''hi'']"]
    by (simp add: arg_def local_client_simps JSON_stringify_object_def stringify_defs)
  have rn: "snd (callTool offline local_client ''get_recent_notes'' None []) =
       [\<lparr> req_url = ''http://localhost:8000/api/vault/notes/recent?limit=5'',
           req_method = ''GET'', req_headers = json_headers, req_body = None \<rparr>]"
    using t [THEN conjunct2, THEN conjunct2, THEN conjunct1, THEN spec, of None]
    by (simp add: arg_def local_client_simps)
  have ld: "snd (callTool offline local_client ''list_directory'' None []) =
       [\<lparr> req_url = ''http://localhost:8000/api/vault/directory?path=.&recursive=false&limit=50&offset=0'',
           req_method = ''GET'', req_headers = json_headers, req_body = None \<rparr>]"
    using t [THEN conjunct2, THEN conjunct2, THEN conjunct2, THEN conjunct1, THEN spec, of None]
    by (simp add: arg_def local_client_simps)
  have dn: "snd (callTool offline local_client ''get_daily_note'' None []) =
       [\<lparr> req_url = ''http://localhost:8000/api/vault/notes/daily?date=today'',
           req_method = ''GET'', req_headers = json_headers, req_body = None \<rparr>]"
    using t [THEN conjunct2, THEN conjunct2, THEN conjunct2, THEN conjunct2, THEN conjunct1,
        THEN spec, of None]
    by (simp add: arg_def local_client_simps)
  have sv: "snd (callTool offline local_client ''search_vault'' (Some [''query'' \<mapsto> JStr ''todo'']) []) =
       [\<lparr> req_url = ''http://localhost:8000/api/vault/search?query=todo&scope=content%2Cfilename%2Ctags'',
           req_method = ''GET'', req_headers = json_headers, req_body = None \<rparr>]"
    using t [THEN conjunct2, THEN conjunct2, THEN conjunct2, THEN conjunct2, THEN conjunct2,
        THEN conjunct1, THEN spec, THEN spec, of "Some [''query'' \<mapsto> JStr ''todo'']" "''todo''"]
    by (simp add: arg_def local_client_simps URLSearchParams_toString_def form_encode_scope
        form_encode_todo)
  from mem general wf rn ld dn sv show ?thesis by (intro conjI)
qed

section \<open>Printing and parsing JSON\<close>

subsection \<open>Strings\<close>





subsection \<open>Numbers\<close>













subsection \<open>Whitespace and first characters\<close>










subsection \<open>One step of the parser\<close>









subsection \<open>Arrays and objects\<close>


















subsection \<open>The round trip\<close>






end
